theory Spec2Isabelle
  imports Complex_Main "HOL-Library.Multiset"
begin

section \<open>Scalars, vectors and kernels\<close>

text \<open>
  The scalar type \<open>K\<close> of the class template is taken to be the reals, with exact
  arithmetic; \<open>std::abs\<close> is \<open>abs\<close> and \<open>std::norm\<close> is the square. A C++ array
  reached through a pointer is a list; the sizes the callers guarantee (a vector holds
  at least \<open>mu * _dof\<close> entries, \<open>_d\<close> holds \<open>_dof\<close> entries, ...) are preconditions of
  the C++ code and appear as hypotheses of the theorems.
\<close>

type_synonym vec = "real list"

text \<open>The enumeration \<open>Schwarz::Prcndtnr\<close>.\<close>

datatype Prcndtnr = NO | SY | GE | OS | OG | AD | BA

text \<open>
  The constants \<open>Wrapper<K>::d__0\<close>, \<open>d__1\<close> and \<open>d__2\<close> are declared outside
  \<^verbatim>\<open>schwarz.hpp\<close>. Their values are fixed by the comments of the file itself:
  \<^verbatim>\<open>gemv(.., d__1, *_ev, .., out, .., d__0, _uc, ..)  // _uc = _ev^T D in\<close> gives
  \<open>d__1 = 1\<close> and \<open>d__0 = 0\<close>, and
  \<^verbatim>\<open>csrmv(.., d__2, .., out, d__1, work) .. //  in = (I - A Z E \ Z^T) in\<close> gives
  \<open>d__2 = - 1\<close>.
\<close>

definition d__0 :: real where "d__0 = 0"
definition d__1 :: real where "d__1 = 1"
definition d__2 :: real where "d__2 = - 1"

text \<open>\<^verbatim>\<open>std::copy_n(src + soff, n, dst + doff)\<close>.\<close>

definition copy_n :: "vec \<Rightarrow> nat \<Rightarrow> nat \<Rightarrow> vec \<Rightarrow> nat \<Rightarrow> vec" where
  "copy_n src soff n dst doff = take doff dst @ take n (drop soff src) @ drop (doff + n) dst"

text \<open>
  Modelled from the spec: the dense kernels of \<open>Wrapper<K>\<close> (``diagonal scaling'',
  ``scaled-vector-add'', ``matrix-vector products'') are not in \<^verbatim>\<open>schwarz.hpp\<close>.
  \<open>diag m n d in out\<close> scales \<open>n\<close> blocks of \<open>m\<close> entries by \<open>d\<close>
  (\<^verbatim>\<open>// out = D in\<close>); with no input vector (\<open>nullptr\<close>, or the overload without
  \<open>in\<close>) it scales \<open>out\<close> in place. \<open>axpy\<close> and \<open>gemv\<close> are the BLAS routines with unit
  strides; the matrix of \<open>gemv\<close> is the list of its columns.
\<close>

definition diag :: "nat \<Rightarrow> nat \<Rightarrow> vec \<Rightarrow> vec option \<Rightarrow> vec \<Rightarrow> vec" where
  "diag m n d inp out =
     (let src = (case inp of None \<Rightarrow> out | Some x \<Rightarrow> x)
      in map (\<lambda>k. d ! (k mod m) * src ! k) [0..<n * m] @ drop (n * m) out)"

definition axpy :: "nat \<Rightarrow> real \<Rightarrow> vec \<Rightarrow> vec \<Rightarrow> vec" where
  "axpy n alpha x y = map (\<lambda>k. alpha * x ! k + y ! k) [0..<n] @ drop n y"

definition dot :: "nat \<Rightarrow> vec \<Rightarrow> vec \<Rightarrow> real" where
  "dot m u v = sum_list (map (\<lambda>j. u ! j * v ! j) [0..<m])"

definition gemv :: "char \<Rightarrow> nat \<Rightarrow> nat \<Rightarrow> real \<Rightarrow> vec list \<Rightarrow> vec \<Rightarrow> real \<Rightarrow> vec \<Rightarrow> vec" where
  "gemv tr m n alpha A x beta y =
     (if tr = CHR ''N''
      then map (\<lambda>j. alpha * sum_list (map (\<lambda>i. A ! i ! j * x ! i) [0..<n]) + beta * y ! j) [0..<m]
             @ drop m y
      else map (\<lambda>i. alpha * dot m (A ! i) x + beta * y ! i) [0..<n] @ drop n y)"

text \<open>\<open>transa\<close> and \<open>Wrapper<K>::transc\<close> (for a real \<open>K\<close>) as the comments use them.\<close>

definition transa :: char where "transa = CHR ''N''"
definition transc :: char where "transc = CHR ''T''"

section \<open>The preconditioner object and the buffers\<close>

text \<open>
  A \<open>Schwarz\<close> object as \<open>apply\<close>, \<open>deflation\<close> and \<open>GMV\<close> see it. The collaborators that
  are not part of \<^verbatim>\<open>schwarz.hpp\<close> are fields holding functions: the local solver
  \<open>super::_s.solve\<close>, the halo exchange \<open>Subdomain::exchange\<close>, the product with the local
  matrix \<open>Subdomain::_a\<close> behind \<open>Wrapper::csrmv\<close> and \<open>csrmm\<close>, and the coarse operator
  \<open>super::_co\<close> with \<open>callSolver<excluded>\<close> and \<open>reallocateRHS\<close>. Each maps the content
  of the array it is given to the content it leaves there.
\<close>

text \<open>\<open>MatrixCSR<K>\<close>: the fields \<open>_sym\<close>, \<open>_a\<close>, \<open>_ia\<close> and \<open>_ja\<close> (numbering from 0).\<close>

record MatrixCSR =
  csr_sym :: bool
  csr_a :: vec
  csr_ia :: "nat list"
  csr_ja :: "nat list"

record Schwarz =
  m_dof :: nat
  m_d :: vec
  m_a :: MatrixCSR
  m_type :: Prcndtnr
  m_ev :: "vec list"
  m_local :: nat
  m_co :: bool
  m_callSolver :: "bool \<Rightarrow> vec \<Rightarrow> nat \<Rightarrow> vec"
  m_reallocateRHS :: "vec \<Rightarrow> nat \<Rightarrow> vec"
  m_solve :: "vec \<Rightarrow> nat \<Rightarrow> vec"
  m_exchange :: "vec \<Rightarrow> nat \<Rightarrow> vec"
  m_spmv :: "vec \<Rightarrow> vec"
  m_ICOLLECTIVE :: bool

text \<open>
  The arrays a call works on. A pointer is the name of an array, so that two pointers
  may name the same array: \<open>apply\<close> without a work buffer sets \<open>work = in\<close>.
  \<open>b_rq\<close> is the pending request of \<open>IcallSolver\<close> (the number of fused unknowns it was
  posted with), completed by \<open>MPI_Wait\<close>.
\<close>

datatype ptr = PIn | POut | PWork | PTmp

record store =
  b_in :: vec
  b_out :: vec
  b_work :: vec
  b_tmp :: vec
  b_uc :: vec
  b_rq :: "nat option"

fun rd :: "store \<Rightarrow> ptr \<Rightarrow> vec" where
  "rd st PIn = b_in st"
| "rd st POut = b_out st"
| "rd st PWork = b_work st"
| "rd st PTmp = b_tmp st"

fun wr :: "store \<Rightarrow> ptr \<Rightarrow> vec \<Rightarrow> store" where
  "wr st PIn v = st\<lparr>b_in := v\<rparr>"
| "wr st POut v = st\<lparr>b_out := v\<rparr>"
| "wr st PWork v = st\<lparr>b_work := v\<rparr>"
| "wr st PTmp v = st\<lparr>b_tmp := v\<rparr>"

text \<open>
  The statements of \<open>deflation\<close>, \<open>GMV\<close> and \<open>apply\<close>, as transformers of the store:
  the calls of the kernels on the arrays the pointers name, and the calls of the
  collaborators. \<open>solve\<close> with two pointers is \<open>_s.solve(in, out, mu)\<close>, with the same
  pointer twice \<open>_s.solve(out, mu)\<close>.
\<close>

definition diag_st :: "Schwarz \<Rightarrow> nat \<Rightarrow> ptr option \<Rightarrow> ptr \<Rightarrow> store \<Rightarrow> store" where
  "diag_st S mu inp outp st =
     wr st outp (diag (m_dof S) mu (m_d S) (map_option (rd st) inp) (rd st outp))"

definition axpy_st :: "Schwarz \<Rightarrow> real \<Rightarrow> ptr \<Rightarrow> ptr \<Rightarrow> store \<Rightarrow> store" where
  "axpy_st S alpha xp yp st = wr st yp (axpy (m_dof S) alpha (rd st xp) (rd st yp))"

definition gemv_uc :: "Schwarz \<Rightarrow> ptr \<Rightarrow> store \<Rightarrow> store" where
  "gemv_uc S xp st =
     st\<lparr>b_uc := gemv transc (m_dof S) (m_local S) d__1 (m_ev S) (rd st xp) d__0 (b_uc st)\<rparr>"

definition gemv_out :: "Schwarz \<Rightarrow> ptr \<Rightarrow> store \<Rightarrow> store" where
  "gemv_out S yp st =
     wr st yp (gemv transa (m_dof S) (m_local S) d__1 (m_ev S) (b_uc st) d__0 (rd st yp))"

definition solve :: "Schwarz \<Rightarrow> ptr \<Rightarrow> ptr \<Rightarrow> nat \<Rightarrow> store \<Rightarrow> store" where
  "solve S src dst mu st =
     wr st dst (copy_n (m_solve S (rd st src) mu) 0 (mu * m_dof S) (rd st dst) 0)"

definition exchange :: "Schwarz \<Rightarrow> ptr \<Rightarrow> nat \<Rightarrow> store \<Rightarrow> store" where
  "exchange S p mu st =
     wr st p (copy_n (m_exchange S (rd st p) mu) 0 (mu * m_dof S) (rd st p) 0)"

definition callSolver :: "bool \<Rightarrow> Schwarz \<Rightarrow> nat \<Rightarrow> store \<Rightarrow> store" where
  "callSolver excluded S fuse st = st\<lparr>b_uc := m_callSolver S excluded (b_uc st) fuse\<rparr>"

definition csrmv :: "Schwarz \<Rightarrow> real \<Rightarrow> vec \<Rightarrow> real \<Rightarrow> vec \<Rightarrow> vec" where
  "csrmv S alpha x beta y =
     map (\<lambda>k. alpha * m_spmv S x ! k + beta * y ! k) [0..<m_dof S] @ drop (m_dof S) y"

definition csrmv_st :: "Schwarz \<Rightarrow> real \<Rightarrow> ptr \<Rightarrow> real \<Rightarrow> ptr \<Rightarrow> store \<Rightarrow> store" where
  "csrmv_st S alpha xp beta yp st = wr st yp (csrmv S alpha (rd st xp) beta (rd st yp))"

definition csrmm :: "Schwarz \<Rightarrow> nat \<Rightarrow> vec \<Rightarrow> vec \<Rightarrow> vec" where
  "csrmm S ncol x y =
     concat (map (\<lambda>c. take (m_dof S) (m_spmv S (take (m_dof S) (drop (c * m_dof S) x)))) [0..<ncol])
       @ drop (ncol * m_dof S) y"

definition csrmm_st :: "Schwarz \<Rightarrow> nat \<Rightarrow> ptr \<Rightarrow> ptr \<Rightarrow> store \<Rightarrow> store" where
  "csrmm_st S ncol xp yp st = wr st yp (csrmm S ncol (rd st xp) (rd st yp))"

section \<open>deflation and Ideflation\<close>

text \<open>
  The two blocks under \<^verbatim>\<open>if(fuse > 0)\<close>: the fused unknowns are copied from behind the
  \<open>_dof\<close> entries of \<open>out\<close> to behind the \<open>getLocal()\<close> entries of \<open>_uc\<close>, and back.
\<close>

definition fuse_in :: "Schwarz \<Rightarrow> ptr \<Rightarrow> nat \<Rightarrow> store \<Rightarrow> store" where
  "fuse_in S outp fuse st =
     (if fuse > 0
      then st\<lparr>b_uc := copy_n (rd st outp) (m_dof S) fuse (m_reallocateRHS S (b_uc st) fuse) (m_local S)\<rparr>
      else st)"

definition fuse_out :: "Schwarz \<Rightarrow> ptr \<Rightarrow> nat \<Rightarrow> store \<Rightarrow> store" where
  "fuse_out S outp fuse st =
     (if fuse > 0
      then wr st outp (copy_n (b_uc st) (m_local S) fuse (rd st outp) (m_dof S))
      else st)"

text \<open>
  \<open>deflation<excluded>(in, out, fuse)\<close>; \<open>inp = None\<close> is the call with \<open>in = nullptr\<close> of
  the overload \<open>deflation<excluded>(out, fuse)\<close>. The coarse operator is dereferenced
  without a check: the callers guarantee \<open>_co\<close>.
\<close>

definition deflation :: "bool \<Rightarrow> Schwarz \<Rightarrow> ptr option \<Rightarrow> ptr \<Rightarrow> nat \<Rightarrow> store \<Rightarrow> store" where
  "deflation excluded S inp outp fuse st =
     (let st = fuse_in S outp fuse st;
          st = (if excluded then callSolver excluded S fuse st
                else
                  (let st = diag_st S 1 inp outp st;
                       st = gemv_uc S outp st;
                       st = callSolver excluded S fuse st;
                       st = gemv_out S outp st
                   in if m_type S \<noteq> AD
                      then (let st = diag_st S 1 None outp st in exchange S outp 1 st)
                      else st))
      in fuse_out S outp fuse st)"

text \<open>
  \<open>Ideflation<excluded>(in, out, rq, fuse)\<close>: \<open>IcallSolver\<close> posts the coarse solve and
  returns; the solution is in \<open>_uc\<close> once the request has been waited for.
\<close>

definition IcallSolver :: "nat \<Rightarrow> store \<Rightarrow> store" where
  "IcallSolver fuse st = st\<lparr>b_rq := Some fuse\<rparr>"

definition MPI_Wait :: "bool \<Rightarrow> Schwarz \<Rightarrow> store \<Rightarrow> store" where
  "MPI_Wait excluded S st =
     (case b_rq st of
        None \<Rightarrow> st
      | Some fuse \<Rightarrow> st\<lparr>b_uc := m_callSolver S excluded (b_uc st) fuse, b_rq := None\<rparr>)"

definition Ideflation :: "bool \<Rightarrow> Schwarz \<Rightarrow> ptr \<Rightarrow> ptr \<Rightarrow> nat \<Rightarrow> store \<Rightarrow> store" where
  "Ideflation excluded S inp outp fuse st =
     (let st = fuse_in S outp fuse st;
          st = (if excluded then IcallSolver fuse st
                else
                  (let st = diag_st S 1 (Some inp) outp st;
                       st = gemv_uc S outp st
                   in IcallSolver fuse st))
      in fuse_out S outp fuse st)"

section \<open>GMV\<close>

text \<open>\<open>GMV(in, out, mu)\<close>: the branch after \<^verbatim>\<open>#else\<close> (the other one is under \<^verbatim>\<open>#if 0\<close>).\<close>

definition GMV :: "Schwarz \<Rightarrow> ptr \<Rightarrow> ptr \<Rightarrow> nat \<Rightarrow> store \<Rightarrow> store" where
  "GMV S inp outp mu st =
     (let st = csrmm_st S mu inp outp st;
          st = diag_st S mu None outp st
      in exchange S outp mu st)"

section \<open>apply\<close>

text \<open>
  \<open>int correction = std::max(Option::get()->val("schwarz_coarse_correction"), -1.0)\<close>:
  the conversion of a \<open>double\<close> to \<open>int\<close> truncates towards zero. \<open>val\<close> is the value the
  option database returns.
\<close>

definition correction_of :: "real \<Rightarrow> int" where
  "correction_of val = (let v = max val (- 1) in if v < 0 then - \<lfloor>- v\<rfloor> else \<lfloor>v\<rfloor>)"

text \<open>
  \<open>Schwarz_apply\<close> is \<open>apply<excluded>(in, out, mu, work, fuse)\<close> (\<open>apply\<close> is a keyword
  of Isabelle). \<open>work_given\<close> tells whether the caller passed a work buffer (the array
  \<open>b_work\<close>) or \<open>nullptr\<close>. \<open>new K[_dof]\<close> gives an array of \<open>_dof\<close> entries, which \<open>GMV\<close>
  fills before they are read.
\<close>

definition new_tmp :: "Schwarz \<Rightarrow> store \<Rightarrow> store" where
  "new_tmp S st = st\<lparr>b_tmp := replicate (m_dof S) 0\<rparr>"

definition delete_tmp :: "store \<Rightarrow> store" where
  "delete_tmp st = st\<lparr>b_tmp := []\<rparr>"

definition Schwarz_apply :: "bool \<Rightarrow> Schwarz \<Rightarrow> real \<Rightarrow> nat \<Rightarrow> bool \<Rightarrow> nat \<Rightarrow> store \<Rightarrow> store" where
  "Schwarz_apply excluded S val mu work_given fuse st =
     (let correction = correction_of val in
      if \<not> m_co S \<or> correction = - 1 then
        (if m_type S = NO then wr st POut (copy_n (b_in st) 0 (mu * m_dof S) (b_out st) 0)
         else if m_type S = GE \<or> m_type S = OG then
           (if \<not> excluded then
              (let st = solve S PIn POut mu st;
                   st = diag_st S mu None POut st
               in exchange S POut mu st)
            else st)
         else
           (if \<not> excluded then
              (let st = (if m_type S = OS then
                           (let st = diag_st S mu (Some PIn) POut st;
                                st = solve S POut POut mu st
                            in diag_st S mu None POut st)
                         else solve S PIn POut mu st)
               in exchange S POut mu st)
            else st))
      else
        (let work = (if \<not> work_given then PIn else PWork);
             st = (if \<not> work_given then st
                   else wr st PWork (copy_n (b_in st) 0 (m_dof S) (b_work st) 0))
         in
         if correction = 1 then
           (if m_ICOLLECTIVE S then
              (let st = Ideflation excluded S PIn POut fuse st in
               if \<not> excluded then
                 (let st = solve S work work 1 st;
                      st = MPI_Wait excluded S st;
                      st = gemv_out S POut st;
                      st = axpy_st S d__1 work POut st;
                      st = diag_st S 1 None POut st
                  in exchange S POut 1 st)
               else MPI_Wait excluded S st)
            else
              (let st = deflation excluded S (Some PIn) POut fuse st in
               if \<not> excluded then
                 (let st = solve S work work 1 st;
                      st = axpy_st S d__1 work POut st;
                      st = diag_st S 1 None POut st
                  in exchange S POut 1 st)
               else st))
         else
           (let st = deflation excluded S (Some PIn) POut fuse st in
            if \<not> excluded then
              (let st = csrmv_st S d__2 POut d__1 work st;
                   st = diag_st S 1 None work st;
                   st = exchange S work 1 st;
                   st = (if m_type S = OS then diag_st S 1 None work st else st);
                   st = solve S work work 1 st;
                   st = diag_st S 1 None work st;
                   st = exchange S work 1 st;
                   st = (if correction = 2 then
                           (let st = new_tmp S st;
                                st = GMV S work PTmp mu st;
                                st = deflation excluded S None PTmp fuse st;
                                st = axpy_st S d__2 PTmp work st
                            in delete_tmp st)
                         else st)
               in axpy_st S d__1 work POut st)
            else st)))"

section \<open>multiplicityScaling\<close>

text \<open>
  \<open>HPDDM_EPS\<close> and \<open>HPDDM_PEN\<close> are macros defined outside \<^verbatim>\<open>schwarz.hpp\<close>; they are
  the parameters \<open>eps\<close> and \<open>pen\<close>, both positive.

  Modelled from the spec: \<open>Wrapper::gthr(n, y, x, indx)\<close> is not in \<^verbatim>\<open>schwarz.hpp\<close>;
  it takes ``a snapshot of the current weight vector restricted to the shared indices'',
  \<open>x[j] = y[indx[j]]\<close>.
\<close>

definition gthr :: "nat list \<Rightarrow> vec \<Rightarrow> vec" where
  "gthr indx y = map (\<lambda>k. y ! k) indx"

text \<open>
  The statement \<^verbatim>\<open>d[k] /= 1.0 + d[k] * recv[j] / send[j]\<close> and its guard. A weight is
  \<open>Some x\<close> for a finite \<open>x\<close> and \<open>None\<close> once it is not finite: the guard gives
  \<open>send[j] \<noteq> 0\<close> (as \<open>eps\<close> is positive), so the only division by zero is by
  \<open>1.0 + d[k] * recv[j] / send[j]\<close>, which leaves an infinity or a NaN in \<open>d[k]\<close>, and
  every later update of an infinity or a NaN by this statement is a NaN.
\<close>

definition scale_update :: "real \<Rightarrow> real \<Rightarrow> real \<Rightarrow> real option \<Rightarrow> real option" where
  "scale_update eps sendj recvj w =
     (if \<bar>sendj\<bar> < eps then Some 0
      else case w of
             None \<Rightarrow> None
           | Some x \<Rightarrow> (let den = 1 + x * recvj / sendj in if den = 0 then None else Some (x / den)))"

text \<open>The loop over \<open>j\<close> for the completed receive \<open>index\<close>.\<close>

definition scale_neighbor :: "real \<Rightarrow> nat list \<Rightarrow> vec \<Rightarrow> vec \<Rightarrow> real option list \<Rightarrow> real option list" where
  "scale_neighbor eps indx send recv d =
     fold (\<lambda>j d. d[indx ! j := scale_update eps (send ! j) (recv ! j) (d ! (indx ! j))])
       [0..<length indx] d"

text \<open>
  \<open>multiplicityScaling(d)\<close> on one process: \<open>dof\<close> and \<open>mp\<close> are \<open>Subdomain::_dof\<close> and
  \<open>Subdomain::_map\<close> (a neighbour's rank with the local indices shared with it),
  \<open>rbuff ! i\<close> is what the receive from neighbour \<open>i\<close> delivers, and \<open>order\<close> is the
  sequence of indices that the calls of \<open>MPI_Waitany\<close> return, each request once.
\<close>

definition multiplicityScaling ::
  "real \<Rightarrow> nat \<Rightarrow> (nat \<times> nat list) list \<Rightarrow> vec list \<Rightarrow> nat list \<Rightarrow> vec \<Rightarrow> real option list" where
  "multiplicityScaling eps dof mp rbuff order d =
     (let sbuff = map (\<lambda>nb. gthr (snd nb) d) mp;
          d1 = map Some (replicate dof 1 @ drop dof d)
      in fold (\<lambda>index d. scale_neighbor eps (snd (mp ! index)) (sbuff ! index) (rbuff ! index) d)
           order d1)"





section \<open>scaleIntoOverlap and solveGEVP\<close>

text \<open>\<open>std::fill(xs + lo, xs + hi, v)\<close>.\<close>

definition fill :: "nat list \<Rightarrow> nat \<Rightarrow> nat \<Rightarrow> nat \<Rightarrow> nat list" where
  "fill xs lo hi v = take lo xs @ replicate (hi - lo) v @ drop (max lo hi) xs"

text \<open>
  \<open>scaleIntoOverlap(A, B)\<close>: the \<open>std::set\<close> is the sorted list of its elements; the
  second loop appends the kept entries row by row, \<open>nnz\<close> being the number appended so far.
\<close>

definition intoOverlap_of :: "real \<Rightarrow> vec \<Rightarrow> (nat \<times> nat list) list \<Rightarrow> nat list" where
  "intoOverlap_of eps d mp = sort (remdups (filter (\<lambda>i. d ! i > eps) (concat (map snd mp))))"

definition overlap_row :: "real \<Rightarrow> vec \<Rightarrow> nat list \<Rightarrow> MatrixCSR \<Rightarrow> nat \<Rightarrow> (nat \<times> real) list" where
  "overlap_row eps d intoOverlap A it =
     map (\<lambda>j. (csr_ja A ! j, d ! it * d ! (csr_ja A ! j) * csr_a A ! j))
       (filter (\<lambda>j. \<bar>d ! it * d ! (csr_ja A ! j) * csr_a A ! j\<bar> > eps \<and> csr_ja A ! j \<in> set intoOverlap)
          [csr_ia A ! it..<csr_ia A ! (it + 1)])"

definition scaleIntoOverlap :: "real \<Rightarrow> nat \<Rightarrow> vec \<Rightarrow> (nat \<times> nat list) list \<Rightarrow> MatrixCSR \<Rightarrow> MatrixCSR" where
  "scaleIntoOverlap eps dof d mp A =
     (let intoOverlap = intoOverlap_of eps d mp;
          tmp = map (overlap_row eps d intoOverlap A) intoOverlap;
          (B, iPrev) =
            fold (\<lambda>(i, row) (B, iPrev).
                    (B\<lparr>csr_ia := fill (csr_ia B) iPrev (i + 1) (length (csr_ja B)),
                       csr_ja := csr_ja B @ map fst row,
                       csr_a := csr_a B @ map snd row\<rparr>, i + 1))
              (zip intoOverlap tmp)
              (\<lparr>csr_sym = csr_sym A, csr_a = [], csr_ia = replicate (dof + 1) 0, csr_ja = []\<rparr>, 0)
      in B\<lparr>csr_ia := fill (csr_ia B) iPrev (dof + 1) (length (csr_ja B))\<rparr>)"

text \<open>
  Modelled from the spec: the eigensolver \<open>Eps<K>\<close> is not in \<^verbatim>\<open>schwarz.hpp\<close>. It is a
  function of what the constructor and \<open>solve\<close> are given (threshold, \<open>_dof\<close>, requested
  count, \<open>A\<close>, right-hand side matrix, whether the local solver is passed) to the vectors
  it leaves in \<open>super::_ev\<close> and the value of \<open>getNu()\<close>. The spec: ``requesting \<open>nu\<close>
  eigenpairs'', ``the solver's actually achieved count (may be smaller than requested)'',
  ``DeflationBasis vector count \<open>\<le>\<close> requested count''.
\<close>

type_synonym Eps = "real \<Rightarrow> nat \<Rightarrow> nat \<Rightarrow> MatrixCSR \<Rightarrow> MatrixCSR \<Rightarrow> bool \<Rightarrow> vec list \<times> nat"


text \<open>
  \<open>solveGEVP<Eps>(A, nu, threshold, B, pattern)\<close>: \<open>free\<close> is the value \<open>sameSparsity\<close>
  returns, \<open>opt\<close> the option database. The result holds \<open>super::_ev\<close>, \<open>nu\<close>, the
  options and \<open>A\<close> as the call leaves them.
\<close>

record gevp =
  g_ev :: "vec list"
  g_nu :: nat
  g_opt :: "string \<Rightarrow> real"
  g_A :: MatrixCSR

definition prune :: "real \<Rightarrow> real \<Rightarrow> nat \<Rightarrow> vec \<Rightarrow> vec" where
  "prune eps pen n v = map (\<lambda>x. if \<bar>x\<bar> < 1 / (eps * pen) then 0 else x) (take n v) @ drop n v"

definition solveGEVP ::
  "real \<Rightarrow> real \<Rightarrow> nat \<Rightarrow> vec \<Rightarrow> (nat \<times> nat list) list \<Rightarrow> Eps \<Rightarrow> MatrixCSR \<Rightarrow> nat \<Rightarrow> real
     \<Rightarrow> MatrixCSR option \<Rightarrow> bool \<Rightarrow> (string \<Rightarrow> real) \<Rightarrow> gevp" where
  "solveGEVP eps pen dof d mp evp A nu threshold B free opt =
     (let rhs = (case B of Some b \<Rightarrow> b | None \<Rightarrow> scaleIntoOverlap eps dof d mp A);
          ev = fst (evp threshold dof nu A rhs free);
          getNu = snd (evp threshold dof nu A rhs free);
          A = (if free then A\<lparr>csr_ia := [], csr_ja := []\<rparr> else A);
          nu = getNu;
          opt = opt(''geneo_nu'' := real nu);
          n = dof
      in \<lparr>g_ev = map (prune eps pen n) (take nu ev) @ drop nu ev, g_nu = nu, g_opt = opt, g_A = A\<rparr>)"

section \<open>computeError\<close>






text \<open>
  \<open>computeError(x, f, storage, mu)\<close>, with \<open>x\<close> in the array \<open>b_in\<close> and \<open>tmp\<close> in \<open>b_tmp\<close>.
  \<open>error_tmp\<close> is \<open>tmp\<close> after \<open>GMV\<close> and \<open>axpy\<close>, \<open>local_sums\<close> is \<open>storage\<close> before
  \<open>MPI_Allreduce\<close>; \<open>others\<close> holds the sums of the other processes, which the
  reduction adds.
\<close>

definition error_tmp :: "Schwarz \<Rightarrow> vec \<Rightarrow> nat \<Rightarrow> store \<Rightarrow> vec" where
  "error_tmp S f mu st =
     (let dm = mu * m_dof S;
          st = st\<lparr>b_tmp := replicate dm 0\<rparr>;
          st = GMV S PIn PTmp mu st
      in axpy dm d__2 f (b_tmp st))"



section \<open>The operators of the specification\<close>

text \<open>
  The vectors the specification speaks of: \<open>D\<close> is the diagonal scaling, \<open>Z\<close> the
  deflation basis as a dense matrix whose columns are the basis vectors, \<open>A\<close> the
  local matrix (applied to each of \<open>mu\<close> vectors).
\<close>

definition Dscale :: "Schwarz \<Rightarrow> nat \<Rightarrow> vec \<Rightarrow> vec" where
  "Dscale S mu x = map (\<lambda>k. m_d S ! (k mod m_dof S) * x ! k) [0..<mu * m_dof S]"

definition Zt :: "Schwarz \<Rightarrow> vec \<Rightarrow> vec" where
  "Zt S x = map (\<lambda>i. dot (m_dof S) (m_ev S ! i) x) [0..<m_local S]"

definition Zmul :: "Schwarz \<Rightarrow> vec \<Rightarrow> vec" where
  "Zmul S y = map (\<lambda>j. sum_list (map (\<lambda>i. m_ev S ! i ! j * y ! i) [0..<m_local S])) [0..<m_dof S]"

definition Amul :: "Schwarz \<Rightarrow> nat \<Rightarrow> vec \<Rightarrow> vec" where
  "Amul S mu x =
     concat (map (\<lambda>c. take (m_dof S) (m_spmv S (take (m_dof S) (drop (c * m_dof S) x)))) [0..<mu])"

text \<open>
  The primitive as the specification describes it: ``applies scaling before and after
  the sparse product and performs the halo exchange''.
\<close>

definition GMV_spec :: "Schwarz \<Rightarrow> nat \<Rightarrow> vec \<Rightarrow> vec" where
  "GMV_spec S mu x = m_exchange S (Dscale S mu (Amul S mu (Dscale S mu x))) mu"


section \<open>A concrete preconditioner\<close>

text \<open>
  Two unknowns, one deflation vector, and collaborators that divide or multiply by a
  constant, so that the order of the calls shows in the result.
\<close>

definition S_ex :: Schwarz where
  "S_ex = \<lparr>m_dof = 2, m_d = [1 / 2, 1],
     m_a = \<lparr>csr_sym = False, csr_a = [4, 4], csr_ia = [0, 1, 2], csr_ja = [0, 1]\<rparr>,
     m_type = SY, m_ev = [[1, 1]], m_local = 1, m_co = True,
     m_callSolver = (\<lambda>excluded uc fuse. map (\<lambda>v. v / 2) uc),
     m_reallocateRHS = (\<lambda>uc fuse. take (1 + fuse) (uc @ replicate fuse 0)),
     m_solve = (\<lambda>x mu. map (\<lambda>v. v / 4) x),
     m_exchange = (\<lambda>x mu. map (\<lambda>v. 3 * v) x),
     m_spmv = (\<lambda>x. map (\<lambda>k. 4 * x ! k) [0..<2]),
     m_ICOLLECTIVE = False\<rparr>"

definition st_ex :: store where
  "st_ex = \<lparr>b_in = [8, 16], b_out = [0, 0], b_work = [0, 0], b_tmp = [], b_uc = [0], b_rq = None\<rparr>"

text \<open>
  An eigensolver that finds one vector however many are requested, with an entry far
  below the pruning threshold.
\<close>

definition evp_ex :: Eps where
  "evp_ex = (\<lambda>threshold n nu A B free. ([[1, 1 / 10 ^ 20], [0, 1]], min nu 1))"

section \<open>The sums of computeError\<close>









section \<open>The weights of multiplicityScaling\<close>



section \<open>All the subdomains together\<close>









section \<open>Reading the store after a statement\<close>

lemma rd_wr [simp]: "rd (wr st p v) q = (if p = q then v else rd st q)"
  by (cases p; cases q) simp_all

lemma wr_fields [simp]: "b_uc (wr st p v) = b_uc st" "b_rq (wr st p v) = b_rq st"
  by (cases p; simp)+

lemma b_in_wr [simp]: "b_in (wr st p v) = (if p = PIn then v else b_in st)"
  by (cases p) simp_all

lemma b_out_wr [simp]: "b_out (wr st p v) = (if p = POut then v else b_out st)"
  by (cases p) simp_all

lemma b_work_wr [simp]: "b_work (wr st p v) = (if p = PWork then v else b_work st)"
  by (cases p) simp_all

lemma b_tmp_wr [simp]: "b_tmp (wr st p v) = (if p = PTmp then v else b_tmp st)"
  by (cases p) simp_all





text \<open>The kernels in terms of the operators of the specification.\<close>

lemma length_Dscale [simp]: "length (Dscale S mu x) = mu * m_dof S"
  by (simp add: Dscale_def)

lemma length_Zt [simp]: "length (Zt S x) = m_local S"
  by (simp add: Zt_def)

lemma length_Zmul [simp]: "length (Zmul S y) = m_dof S"
  by (simp add: Zmul_def)

lemma diag_Some: "diag (m_dof S) mu (m_d S) (Some x) out = Dscale S mu x @ drop (mu * m_dof S) out"
  by (simp add: diag_def Dscale_def)

lemma diag_None: "diag (m_dof S) mu (m_d S) None out = Dscale S mu out @ drop (mu * m_dof S) out"
  by (simp add: diag_def Dscale_def)

lemma Dscale_append: "mu * m_dof S \<le> length a \<Longrightarrow> Dscale S mu (a @ b) = Dscale S mu a"
  by (simp add: Dscale_def nth_append)

lemma dot_append: "m \<le> length a \<Longrightarrow> dot m u (a @ b) = dot m u a"
proof -
  assume "m \<le> length a"
  then have "map (\<lambda>j. u ! j * (a @ b) ! j) [0..<m] = map (\<lambda>j. u ! j * a ! j) [0..<m]"
    by (intro map_cong) (auto simp: nth_append)
  then show ?thesis by (simp only: dot_def)
qed

lemma Zt_append: "m_dof S \<le> length a \<Longrightarrow> Zt S (a @ b) = Zt S a"
  by (simp add: Zt_def dot_append)

lemma Zmul_append: "m_local S \<le> length a \<Longrightarrow> Zmul S (a @ b) = Zmul S a"
proof -
  assume "m_local S \<le> length a"
  then have "map (\<lambda>i. m_ev S ! i ! j * (a @ b) ! i) [0..<m_local S] =
      map (\<lambda>i. m_ev S ! i ! j * a ! i) [0..<m_local S]" for j
    by (intro map_cong) (auto simp: nth_append)
  then show ?thesis by (simp only: Zmul_def)
qed

lemma gemv_T: "gemv transc (m_dof S) (m_local S) d__1 (m_ev S) x d__0 y = Zt S x @ drop (m_local S) y"
  by (simp add: gemv_def transc_def d__1_def d__0_def Zt_def)

lemma gemv_N: "gemv transa (m_dof S) (m_local S) d__1 (m_ev S) y d__0 out = Zmul S y @ drop (m_dof S) out"
  by (simp add: gemv_def transa_def d__1_def d__0_def Zmul_def)


lemma rd_uc_update [simp]: "rd (st\<lparr>b_uc := v\<rparr>) q = rd st q"
  by (cases q) simp_all

lemma rd_rq_update [simp]: "rd (st\<lparr>b_rq := v\<rparr>) q = rd st q"
  by (cases q) simp_all

lemma rd_diag_st:
  "rd (diag_st S mu inp p st) q =
     (if p = q
      then Dscale S mu (case inp of None \<Rightarrow> rd st p | Some i \<Rightarrow> rd st i) @ drop (mu * m_dof S) (rd st p)
      else rd st q)"
  by (cases inp) (simp_all add: diag_st_def diag_Some diag_None)

lemma rd_axpy_st:
  "rd (axpy_st S al x y st) q = (if y = q then axpy (m_dof S) al (rd st x) (rd st y) else rd st q)"
  by (simp add: axpy_st_def)

lemma rd_gemv_uc: "rd (gemv_uc S x st) q = rd st q"
  by (simp add: gemv_uc_def)

lemma uc_gemv_uc: "b_uc (gemv_uc S x st) = Zt S (rd st x) @ drop (m_local S) (b_uc st)"
  by (simp add: gemv_uc_def gemv_T)

lemma rd_gemv_out:
  "rd (gemv_out S y st) q = (if y = q then Zmul S (b_uc st) @ drop (m_dof S) (rd st y) else rd st q)"
  by (simp add: gemv_out_def gemv_N)

lemma rd_solve:
  "rd (solve S x y mu st) q =
     (if y = q then take (mu * m_dof S) (m_solve S (rd st x) mu) @ drop (mu * m_dof S) (rd st y)
      else rd st q)"
  by (simp add: solve_def copy_n_def)

lemma rd_exchange:
  "rd (exchange S p mu st) q =
     (if p = q then take (mu * m_dof S) (m_exchange S (rd st p) mu) @ drop (mu * m_dof S) (rd st p)
      else rd st q)"
  by (simp add: exchange_def copy_n_def)

lemma rd_callSolver: "rd (callSolver e S fuse st) q = rd st q"
  by (simp add: callSolver_def)

lemma uc_callSolver: "b_uc (callSolver e S fuse st) = m_callSolver S e (b_uc st) fuse"
  by (simp add: callSolver_def)

lemma rd_csrmv_st:
  "rd (csrmv_st S al x be y st) q = (if y = q then csrmv S al (rd st x) be (rd st y) else rd st q)"
  by (simp add: csrmv_st_def)

lemma rd_csrmm_st:
  "rd (csrmm_st S n x y st) q = (if y = q then csrmm S n (rd st x) (rd st y) else rd st q)"
  by (simp add: csrmm_st_def)

lemma rd_fuse_in: "rd (fuse_in S p fuse st) q = rd st q"
  by (simp add: fuse_in_def)

lemma uc_frame:
  "b_uc (diag_st S mu i p st) = b_uc st"
  "b_uc (axpy_st S al x p st) = b_uc st"
  "b_uc (gemv_out S p st) = b_uc st"
  "b_uc (solve S x p mu st) = b_uc st"
  "b_uc (exchange S p mu st) = b_uc st"
  "b_uc (csrmv_st S al x be p st) = b_uc st"
  "b_uc (csrmm_st S n x p st) = b_uc st"
  "b_uc (fuse_out S p fuse st) = b_uc st"
  "b_uc (new_tmp S st) = b_uc st"
  "b_uc (delete_tmp st) = b_uc st"
  by (simp_all add: diag_st_def axpy_st_def gemv_out_def solve_def exchange_def csrmv_st_def
      csrmm_st_def fuse_out_def new_tmp_def delete_tmp_def)

lemmas rd_stmt = rd_diag_st rd_axpy_st rd_gemv_uc rd_gemv_out rd_solve rd_exchange rd_callSolver
  rd_csrmv_st rd_csrmm_st rd_fuse_in

lemma csrmm_Amul: "csrmm S mu x y = Amul S mu x @ drop (mu * m_dof S) y"
  by (simp add: csrmm_def Amul_def)

lemma length_Amul: "\<forall>v. length (m_spmv S v) = m_dof S \<Longrightarrow> length (Amul S mu x) = mu * m_dof S"
  by (induction mu) (simp_all add: Amul_def)


text \<open>Statements that do not name the output array commute with a write to it.\<close>

lemma wr_comm: "p \<noteq> q \<Longrightarrow> wr (wr st p v) q w = wr (wr st q w) p v"
  by (cases p; cases q) simp_all

lemma wr_uc_comm: "wr (st\<lparr>b_uc := u\<rparr>) p v = (wr st p v)\<lparr>b_uc := u\<rparr>"
  by (cases p) simp_all






lemma rd_deflation_other: "p \<noteq> q \<Longrightarrow> rd (deflation e S i p fuse st) q = rd st q"
  by (simp add: deflation_def Let_def rd_stmt fuse_out_def)


lemma correction_of_simps [simp]: "correction_of 0 = 0" "correction_of 2 = 2" "correction_of 1 = 1"
   "correction_of (- 1) = - 1"
  by (simp_all add: correction_of_def)



text \<open>The definitions that evaluate a call on the concrete preconditioner.\<close>

lemmas run_defs = diag_st_def axpy_st_def gemv_uc_def gemv_out_def callSolver_def csrmv_st_def
  csrmm_st_def fuse_in_def fuse_out_def IcallSolver_def new_tmp_def delete_tmp_def
  Schwarz_apply_def S_ex_def st_ex_def correction_of_def deflation_def Ideflation_def
  MPI_Wait_def GMV_def Let_def diag_def gemv_def exchange_def solve_def copy_n_def csrmv_def
  csrmm_def axpy_def transa_def transc_def d__0_def d__1_def d__2_def dot_def Dscale_def
  Zt_def Zmul_def Amul_def eval_nat_numeral

section \<open>The single-level branch of apply\<close>

text \<open>
  Claim C2, as the code has it. In the single-level branch (no coarse operator, or a
  correction of \<open>-1\<close>), on a process that is not excluded: mode \<open>NO\<close> copies the input
  to the output; modes \<open>GE\<close> and \<open>OG\<close> solve locally, then scale by \<open>D\<close>, then exchange;
  mode \<open>OS\<close> scales, solves, scales again and exchanges; mode \<open>SY\<close> (and \<open>AD\<close>, \<open>BA\<close>)
  solves locally and exchanges, with no diagonal scaling at all.
\<close>

theorem apply_single_level:
  assumes "\<not> m_co S \<or> correction_of val = - 1"
    and "length (b_in st) = mu * m_dof S" "length (b_out st) = mu * m_dof S"
    and "\<forall>x. length (m_solve S x mu) = length x"
    and "\<forall>x. length (m_exchange S x mu) = length x"
  shows "b_out (Schwarz_apply False S val mu work_given fuse st) =
    (case m_type S of
       NO \<Rightarrow> b_in st
     | GE \<Rightarrow> m_exchange S (Dscale S mu (m_solve S (b_in st) mu)) mu
     | OG \<Rightarrow> m_exchange S (Dscale S mu (m_solve S (b_in st) mu)) mu
     | OS \<Rightarrow> m_exchange S (Dscale S mu (m_solve S (Dscale S mu (b_in st)) mu)) mu
     | _ \<Rightarrow> m_exchange S (m_solve S (b_in st) mu) mu)"
  using assms
  by (cases "m_type S")
    (auto simp: Schwarz_apply_def copy_n_def Let_def solve_def exchange_def diag_def diag_st_def
       Dscale_def)

theorem apply_single_level_witness:
  "\<not> m_co (S_ex\<lparr>m_co := False\<rparr>) \<and>
   length (b_in st_ex) = 1 * m_dof (S_ex\<lparr>m_co := False\<rparr>) \<and>
   length (b_out st_ex) = 1 * m_dof (S_ex\<lparr>m_co := False\<rparr>) \<and>
   (\<forall>x. length (m_solve (S_ex\<lparr>m_co := False\<rparr>) x 1) = length x) \<and>
   (\<forall>x. length (m_exchange (S_ex\<lparr>m_co := False\<rparr>) x 1) = length x) \<and>
   b_out (Schwarz_apply False (S_ex\<lparr>m_co := False\<rparr>) 0 1 False 0 st_ex) = [6, 12]"
  using apply_single_level[of "S_ex\<lparr>m_co := False\<rparr>" 0 st_ex 1 False 0]
  by (simp add: S_ex_def st_ex_def)

text \<open>
  Claim C2 as stated fails for mode \<open>SY\<close>: the output is not ``scale, solve, scale,
  exchange'' of the input.
\<close>

theorem apply_symmetric_counterexample:
  "\<not> m_co (S_ex\<lparr>m_co := False\<rparr>) \<and> m_type (S_ex\<lparr>m_co := False\<rparr>) = SY \<and>
   b_out (Schwarz_apply False (S_ex\<lparr>m_co := False\<rparr>) 0 1 False 0 st_ex) \<noteq>
   m_exchange S_ex (Dscale S_ex 1 (m_solve S_ex (Dscale S_ex 1 (b_in st_ex)) 1)) 1"
  by (simp add: run_defs cong: let_weak_cong)

section \<open>Mode NO\<close>

text \<open>
  Claim C9, as the code has it. With mode \<open>NO\<close> and in the single-level branch (no
  coarse operator, or a correction of \<open>-1\<close>), \<open>apply\<close> copies the \<open>mu * _dof\<close> entries
  of \<open>in\<close> to \<open>out\<close>: the output equals the input exactly, for every input vector, on
  excluded processes too.
\<close>

theorem apply_NO_copies:
  assumes "m_type S = NO" "\<not> m_co S \<or> correction_of val = - 1"
    and "length (b_in st) = mu * m_dof S" "length (b_out st) = mu * m_dof S"
  shows "b_out (Schwarz_apply excluded S val mu work_given fuse st) = b_in st"
  using assms by (auto simp: Schwarz_apply_def copy_n_def Let_def)

theorem apply_NO_copies_witness:
  "m_type (S_ex\<lparr>m_type := NO\<rparr>) = NO \<and>
   correction_of (- 1) = - 1 \<and>
   length (b_in st_ex) = 1 * m_dof (S_ex\<lparr>m_type := NO\<rparr>) \<and>
   length (b_out st_ex) = 1 * m_dof (S_ex\<lparr>m_type := NO\<rparr>) \<and>
   b_out (Schwarz_apply False (S_ex\<lparr>m_type := NO\<rparr>) (- 1) 1 False 0 st_ex) = [8, 16]"
  using apply_NO_copies[of "S_ex\<lparr>m_type := NO\<rparr>" "- 1" st_ex 1 False False 0]
  by (simp add: S_ex_def st_ex_def correction_of_def)

text \<open>
  Claim C9 as stated (``every configuration'') fails: with mode \<open>NO\<close>, a coarse operator
  and the correction \<open>0\<close>, the output is not the input.
\<close>

theorem apply_NO_counterexample:
  "m_type (S_ex\<lparr>m_type := NO\<rparr>) = NO \<and>
   b_out (Schwarz_apply False (S_ex\<lparr>m_type := NO\<rparr>) 0 1 True 0 st_ex) \<noteq> b_in st_ex"
  by (simp add: run_defs cong: let_weak_cong)

section \<open>The input vector of apply\<close>




section \<open>solveGEVP\<close>


lemma solveGEVP_unfold:
  "solveGEVP eps pen dof d mp evp A nu threshold B free opt =
     \<lparr>g_ev = map (prune eps pen dof)
               (take (snd (evp threshold dof nu A (case B of Some b \<Rightarrow> b | None \<Rightarrow> scaleIntoOverlap eps dof d mp A) free))
                  (fst (evp threshold dof nu A (case B of Some b \<Rightarrow> b | None \<Rightarrow> scaleIntoOverlap eps dof d mp A) free)))
             @ drop (snd (evp threshold dof nu A (case B of Some b \<Rightarrow> b | None \<Rightarrow> scaleIntoOverlap eps dof d mp A) free))
                  (fst (evp threshold dof nu A (case B of Some b \<Rightarrow> b | None \<Rightarrow> scaleIntoOverlap eps dof d mp A) free)),
       g_nu = snd (evp threshold dof nu A (case B of Some b \<Rightarrow> b | None \<Rightarrow> scaleIntoOverlap eps dof d mp A) free),
       g_opt = opt(''geneo_nu'' := real (snd (evp threshold dof nu A (case B of Some b \<Rightarrow> b | None \<Rightarrow> scaleIntoOverlap eps dof d mp A) free))),
       g_A = (if free then A\<lparr>csr_ia := [], csr_ja := []\<rparr> else A)\<rparr>"
  unfolding solveGEVP_def Let_def by (rule refl)



text \<open>The same run, evaluated: three vectors requested, one achieved, one entry pruned.\<close>

lemma solveGEVP_example:
  "(let r = solveGEVP (1 / 10 ^ 12) (10 ^ 30) 2 (m_d S_ex) [] evp_ex (m_a S_ex) 3 (1 / 10 ^ 6) None
              False (\<lambda>k. 0)
    in g_nu r = 1 \<and> g_opt r ''geneo_nu'' = 1 \<and> g_ev r = [[1, 0], [0, 1]])"
  by (subst solveGEVP_unfold) (simp add: evp_ex_def Let_def prune_def)

section \<open>deflation\<close>

text \<open>
  The result of \<open>deflation\<close>, with \<open>fuse\<close> fused unknowns behind the \<open>_dof\<close> entries of
  \<open>out\<close>.
\<close>

lemma deflation_result:
  assumes h1: "length (rd st outp) = m_dof S + fuse"
    and h2: "length (if fuse > 0 then m_reallocateRHS S (b_uc st) fuse else b_uc st) = m_local S + fuse"
    and h3: "\<forall>v. length (m_exchange S v 1) = length v"
    and h4: "\<forall>e v. length (m_callSolver S e v fuse) = length v"
  shows "(let x = (case inp of None \<Rightarrow> rd st outp | Some p \<Rightarrow> rd st p);
              fused = drop (m_dof S) (rd st outp);
              uc = m_callSolver S False (Zt S (Dscale S 1 x) @ fused) fuse;
              st' = deflation False S inp outp fuse st
          in b_uc st' = uc \<and>
             rd st' outp =
               (if m_type S \<noteq> AD
                then take (m_dof S) (m_exchange S (Dscale S 1 (Zmul S uc) @ fused) 1)
                else Zmul S uc) @ drop (m_local S) uc) \<and>
         (let st' = deflation True S inp outp fuse st
          in st' = fuse_out S outp fuse (callSolver True S fuse (fuse_in S outp fuse st)) \<and>
             take (m_dof S) (rd st' outp) = take (m_dof S) (rd st outp))"
proof -
  note One_nat_def [simp del]
  let ?x = "case inp of None \<Rightarrow> rd st outp | Some p \<Rightarrow> rd st p"
  let ?out0 = "rd st outp"
  let ?fused = "drop (m_dof S) ?out0"
  let ?st1 = "fuse_in S outp fuse st"
  have lf: "length ?fused = fuse" using h1 by simp
  have uc1: "drop (m_local S) (b_uc ?st1) = ?fused"
  proof (cases "fuse > 0")
    case True
    then show ?thesis using h1 h2 by (simp add: fuse_in_def copy_n_def)
  next
    case False
    then show ?thesis using h1 h2 by (simp add: fuse_in_def)
  qed
  have x1: "(case inp of None \<Rightarrow> rd ?st1 outp | Some i \<Rightarrow> rd ?st1 i) = ?x"
    by (cases inp) (simp_all add: rd_fuse_in)
  let ?uc = "m_callSolver S False (Zt S (Dscale S 1 ?x) @ ?fused) fuse"
  let ?st4 = "callSolver False S fuse (gemv_uc S outp (diag_st S 1 inp outp ?st1))"
  have uc4: "b_uc ?st4 = ?uc"
    by (simp add: uc_callSolver uc_gemv_uc rd_stmt uc_frame x1 uc1 Zt_append)
  have out4: "rd ?st4 outp = Dscale S 1 ?x @ ?fused"
    by (simp add: rd_stmt x1)
  have luc: "length ?uc = m_local S + fuse" using h4 lf by simp
  let ?st5 = "gemv_out S outp ?st4"
  have out5: "rd ?st5 outp = Zmul S ?uc @ ?fused"
    by (simp add: rd_gemv_out uc4 out4)
  have uc5: "b_uc ?st5 = ?uc" by (simp add: uc_frame uc4)
  let ?st6 = "if m_type S \<noteq> AD then exchange S outp 1 (diag_st S 1 None outp ?st5) else ?st5"
  let ?main = "if m_type S \<noteq> AD
                then take (m_dof S) (m_exchange S (Dscale S 1 (Zmul S ?uc) @ ?fused) 1)
                else Zmul S ?uc"
  have lmain: "length ?main = m_dof S" using h3 lf by simp
  have out6: "rd ?st6 outp = ?main @ ?fused"
    by (simp add: rd_exchange rd_diag_st out5 Dscale_append)
  have uc6: "b_uc ?st6 = ?uc"
    by (simp add: uc_frame uc4)
  have defl: "deflation False S inp outp fuse st = fuse_out S outp fuse ?st6"
    by (simp add: deflation_def Let_def)
  have out7: "rd (fuse_out S outp fuse ?st6) outp = ?main @ drop (m_local S) ?uc"
  proof (cases "fuse > 0")
    case True
    have "rd (fuse_out S outp fuse ?st6) outp =
        copy_n ?uc (m_local S) fuse (?main @ ?fused) (m_dof S)"
      using True by (simp only: fuse_out_def if_True rd_wr uc6 out6 refl)
    also have "\<dots> = ?main @ drop (m_local S) ?uc"
      using lmain lf luc unfolding copy_n_def by simp
    finally show ?thesis .
  next
    case False
    then have "fuse = 0" by simp
    then show ?thesis using out6 lf luc by (simp add: fuse_out_def)
  qed
  have uc7: "b_uc (fuse_out S outp fuse ?st6) = ?uc"
    using uc6 by (simp only: uc_frame)
  have ex1: "deflation True S inp outp fuse st = fuse_out S outp fuse (callSolver True S fuse ?st1)"
    by (simp add: deflation_def Let_def)
  have ex2: "take (m_dof S) (rd (fuse_out S outp fuse (callSolver True S fuse ?st1)) outp) = take (m_dof S) ?out0"
    using h1 by (simp add: fuse_out_def copy_n_def rd_stmt)
  show ?thesis
    unfolding Let_def defl ex1 using out7 uc7 ex2 by simp
qed


text \<open>
  Claim C1. On a process that is not excluded, \<open>deflation\<close> scales the input by \<open>D\<close>,
  reduces it with the transposed basis, calls the coarse solver on the reduced vector
  (followed by the fused unknowns) and projects back with the basis, \<open>out = Z E\<inverse> Z\<^sup>T D in\<close>;
  exactly when the mode is not \<open>AD\<close> it then scales \<open>out\<close> by \<open>D\<close> again and exchanges
  it. On an excluded process it only calls the coarse solver (between the two copies of
  the fused unknowns) and the \<open>_dof\<close> entries of \<open>out\<close> are left as they were.
\<close>

theorem deflation_computes:
  assumes "length (rd st outp) = m_dof S + fuse"
    and "length (if fuse > 0 then m_reallocateRHS S (b_uc st) fuse else b_uc st) = m_local S + fuse"
    and "\<forall>v. length (m_exchange S v 1) = length v"
    and "\<forall>e v. length (m_callSolver S e v fuse) = length v"
  shows "(let x = (case inp of None \<Rightarrow> rd st outp | Some p \<Rightarrow> rd st p);
              fused = drop (m_dof S) (rd st outp);
              uc = m_callSolver S False (Zt S (Dscale S 1 x) @ fused) fuse;
              st' = deflation False S inp outp fuse st
          in b_uc st' = uc \<and>
             rd st' outp =
               (if m_type S \<noteq> AD
                then take (m_dof S) (m_exchange S (Dscale S 1 (Zmul S uc) @ fused) 1)
                else Zmul S uc) @ drop (m_local S) uc) \<and>
         (let st' = deflation True S inp outp fuse st
          in st' = fuse_out S outp fuse (callSolver True S fuse (fuse_in S outp fuse st)) \<and>
             take (m_dof S) (rd st' outp) = take (m_dof S) (rd st outp))"
  using assms by (rule deflation_result)

theorem deflation_computes_witness:
  "length (rd (st_ex\<lparr>b_out := [0, 0, 5]\<rparr>) POut) = m_dof S_ex + 1 \<and>
   length (m_reallocateRHS S_ex (b_uc (st_ex\<lparr>b_out := [0, 0, 5]\<rparr>)) 1) = m_local S_ex + 1 \<and>
   (\<forall>v. length (m_exchange S_ex v 1) = length v) \<and>
   (\<forall>e v. length (m_callSolver S_ex e v 1) = length v) \<and>
   b_uc (deflation False S_ex (Some PIn) POut 1 (st_ex\<lparr>b_out := [0, 0, 5]\<rparr>)) = [10, 5 / 2] \<and>
   b_out (deflation False S_ex (Some PIn) POut 1 (st_ex\<lparr>b_out := [0, 0, 5]\<rparr>)) = [15, 30, 5 / 2] \<and>
   b_out (deflation True S_ex (Some PIn) POut 1 (st_ex\<lparr>b_out := [0, 0, 5]\<rparr>)) = [0, 0, 5 / 2]"
proof -
  have h: "length (rd (st_ex\<lparr>b_out := [0, 0, 5]\<rparr>) POut) = m_dof S_ex + 1"
    "length (if (1::nat) > 0 then m_reallocateRHS S_ex (b_uc (st_ex\<lparr>b_out := [0, 0, 5]\<rparr>)) 1
             else b_uc (st_ex\<lparr>b_out := [0, 0, 5]\<rparr>)) = m_local S_ex + 1"
    "\<forall>v. length (m_exchange S_ex v 1) = length v"
    "\<forall>e v. length (m_callSolver S_ex e v 1) = length v"
    by (simp_all add: S_ex_def st_ex_def)
  have e: "b_out (deflation True S_ex (Some PIn) POut 1 (st_ex\<lparr>b_out := [0, 0, 5]\<rparr>)) = [0, 0, 5 / 2]"
    by (simp add: run_defs cong: let_weak_cong)
  show ?thesis
    using h e deflation_computes[OF h, of "Some PIn"]
    by (simp add: Let_def S_ex_def st_ex_def Dscale_def Zt_def Zmul_def dot_def eval_nat_numeral)
qed


section \<open>GMV and the sparse products\<close>

lemma GMV_result:
  assumes "\<forall>v. length (m_spmv S v) = m_dof S"
    and "\<forall>v. length (m_exchange S v mu) = length v"
    and "length (rd st outp) = mu * m_dof S"
  shows "rd (GMV S inp outp mu st) outp = m_exchange S (Dscale S mu (Amul S mu (rd st inp))) mu"
  using assms by (simp add: GMV_def Let_def rd_stmt csrmm_Amul length_Amul Dscale_append)

lemma error_tmp_result:
  assumes "\<forall>v. length (m_spmv S v) = m_dof S"
    and "\<forall>v. length (m_exchange S v mu) = length v"
  shows "error_tmp S f mu st =
     axpy (mu * m_dof S) (- 1) f (m_exchange S (Dscale S mu (Amul S mu (b_in st))) mu)"
proof -
  have "b_tmp (GMV S PIn PTmp mu (st\<lparr>b_tmp := replicate (mu * m_dof S) 0\<rparr>)) =
      m_exchange S (Dscale S mu (Amul S mu (b_in st))) mu"
    using GMV_result[OF assms, of "st\<lparr>b_tmp := replicate (mu * m_dof S) 0\<rparr>" PTmp PIn] by simp
  then show ?thesis
    by (simp add: error_tmp_def Let_def d__2_def)
qed

text \<open>The deflated strategy (correction \<open>0\<close>) with a work buffer, step by step.\<close>

lemma csrmv_app: "m_dof S \<le> length y \<Longrightarrow> length (csrmv S al x be y) = length y"
  by (simp add: csrmv_def)

lemma deflated_work:
  assumes co: "m_co S"
    and lin: "length (b_in st) = m_dof S" and lout: "length (b_out st) = m_dof S"
    and lwork: "length (b_work st) = m_dof S" and luc: "length (b_uc st) = m_local S"
    and hx: "\<forall>v. length (m_exchange S v 1) = length v"
    and hs: "\<forall>v. length (m_solve S v 1) = length v"
    and hc: "\<forall>e v. length (m_callSolver S e v 0) = length v"
  shows "(let uc = m_callSolver S False (Zt S (Dscale S 1 (b_in st))) 0;
              q = (if m_type S \<noteq> AD then m_exchange S (Dscale S 1 (Zmul S uc)) 1 else Zmul S uc);
              r = m_exchange S (Dscale S 1 (csrmv S (- 1) q 1 (b_in st))) 1;
              w = m_exchange S (Dscale S 1 (m_solve S (if m_type S = OS then Dscale S 1 r else r) 1)) 1;
              r0 = Schwarz_apply False S 0 mu True 0 st
          in b_work r0 = w \<and> b_out r0 = axpy (m_dof S) 1 w q)"
proof -
  note One_nat_def [simp del] rd.simps [simp del]
  define st0 where "st0 = wr st PWork (copy_n (b_in st) 0 (m_dof S) (b_work st) 0)"
  have w0: "rd st0 PWork = b_in st"
    using lin lwork by (simp add: st0_def copy_n_def rd.simps)
  have i0: "rd st0 POut = b_out st" "rd st0 PIn = b_in st" "b_uc st0 = b_uc st"
    by (simp_all add: st0_def rd.simps)
  define uc where "uc = m_callSolver S False (Zt S (Dscale S 1 (b_in st))) 0"
  define q where "q = (if m_type S \<noteq> AD then m_exchange S (Dscale S 1 (Zmul S uc)) 1 else Zmul S uc)"
  define r where "r = m_exchange S (Dscale S 1 (csrmv S (- 1) q 1 (b_in st))) 1"
  define r' where "r' = (if m_type S = OS then Dscale S 1 r else r)"
  define w where "w = m_exchange S (Dscale S 1 (m_solve S r' 1)) 1"
  define s1 where "s1 = deflation False S (Some PIn) POut 0 st0"
  have d: "rd s1 POut = q"
    using deflation_result[of st0 POut S 0 "Some PIn"] lout luc hx hc i0 lin
    by (simp add: Let_def s1_def q_def uc_def)
  have lq: "length q = m_dof S" using hx by (simp add: q_def)
  have dw: "rd s1 PWork = b_in st"
    using w0 by (simp add: rd_deflation_other s1_def)
  define s3 where "s3 = exchange S PWork 1 (diag_st S 1 None PWork (csrmv_st S d__2 POut d__1 PWork s1))"
  have s3: "rd s3 PWork = r"
    using hx lin by (simp add: s3_def r_def rd_stmt d dw d__2_def d__1_def csrmv_app Dscale_append)
  have o3: "rd s3 POut = q"
    using d by (simp add: s3_def rd_stmt)
  have lr: "length r = m_dof S" using hx by (simp add: r_def)
  define s4 where "s4 = (if m_type S = OS then diag_st S 1 None PWork s3 else s3)"
  have s4: "rd s4 PWork = r'"
    using lr by (simp add: s4_def r'_def rd_diag_st s3)
  have o4: "rd s4 POut = q"
    using o3 by (simp add: s4_def rd_stmt)
  have lr': "length r' = m_dof S" using lr by (simp add: r'_def)
  define s7 where "s7 = exchange S PWork 1 (diag_st S 1 None PWork (solve S PWork PWork 1 s4))"
  have s7: "rd s7 PWork = w"
    using hx hs lr' by (simp add: s7_def w_def rd_exchange rd_diag_st rd_solve s4 Dscale_append)
  have o7: "rd s7 POut = q"
    using o4 by (simp add: s7_def rd_stmt)
  have r0: "Schwarz_apply False S 0 mu True 0 st = axpy_st S d__1 PWork POut s7"
    unfolding Schwarz_apply_def Let_def s7_def s4_def s3_def s1_def st0_def using co by simp
  have a: "rd (axpy_st S d__1 PWork POut s7) PWork = w"
    by (simp add: rd_axpy_st s7)
  have b: "rd (axpy_st S d__1 PWork POut s7) POut = axpy (m_dof S) 1 w q"
    by (simp add: rd_axpy_st s7 o7 d__1_def)
  show ?thesis
    unfolding Let_def r0 uc_def[symmetric] q_def[symmetric] r_def[symmetric] r'_def[symmetric]
      w_def[symmetric]
    using a b by (simp add: rd.simps)
qed

text \<open>
  Claim C6, as the code has it. \<open>GMV\<close> multiplies its unscaled input by the local
  matrix, scales the product by \<open>D\<close> once, and exchanges it. The product of
  \<open>computeError\<close> is the one of \<open>GMV\<close>. The residual of the deflated strategy in \<open>apply\<close>
  is formed by \<open>csrmv\<close> itself (\<open>work - A out\<close>, with \<open>out\<close> the coarse correction), and
  the residual is then scaled and exchanged.
\<close>

theorem GMV_scales_once:
  assumes "\<forall>v. length (m_spmv S v) = m_dof S"
    and "\<forall>m v. length (m_exchange S v m) = length v"
  shows "(length (rd st outp) = mu * m_dof S \<longrightarrow>
            rd (GMV S inp outp mu st) outp = m_exchange S (Dscale S mu (Amul S mu (rd st inp))) mu) \<and>
         error_tmp S f mu st =
            axpy (mu * m_dof S) (- 1) f (m_exchange S (Dscale S mu (Amul S mu (b_in st))) mu) \<and>
         (m_co S \<and> length (b_in st) = m_dof S \<and> length (b_out st) = m_dof S \<and>
          length (b_work st) = m_dof S \<and> length (b_uc st) = m_local S \<and>
          (\<forall>v. length (m_solve S v 1) = length v) \<and>
          (\<forall>e v. length (m_callSolver S e v 0) = length v) \<longrightarrow>
            (let uc = m_callSolver S False (Zt S (Dscale S 1 (b_in st))) 0;
                 q = (if m_type S \<noteq> AD then m_exchange S (Dscale S 1 (Zmul S uc)) 1 else Zmul S uc);
                 r = m_exchange S (Dscale S 1 (csrmv S (- 1) q 1 (b_in st))) 1;
                 w = m_exchange S (Dscale S 1 (m_solve S (if m_type S = OS then Dscale S 1 r else r) 1)) 1;
                 r0 = Schwarz_apply False S 0 mu True 0 st
             in b_work r0 = w \<and> b_out r0 = axpy (m_dof S) 1 w q))"
proof (intro conjI impI)
  have hx: "\<forall>v. length (m_exchange S v m) = length v" for m
    using assms(2) by simp
  show "rd (GMV S inp outp mu st) outp = m_exchange S (Dscale S mu (Amul S mu (rd st inp))) mu"
    if "length (rd st outp) = mu * m_dof S"
    using GMV_result[OF assms(1) hx that] .
  show "error_tmp S f mu st =
      axpy (mu * m_dof S) (- 1) f (m_exchange S (Dscale S mu (Amul S mu (b_in st))) mu)"
    using error_tmp_result[OF assms(1) hx] .
  show "(let uc = m_callSolver S False (Zt S (Dscale S 1 (b_in st))) 0;
             q = (if m_type S \<noteq> AD then m_exchange S (Dscale S 1 (Zmul S uc)) 1 else Zmul S uc);
             r = m_exchange S (Dscale S 1 (csrmv S (- 1) q 1 (b_in st))) 1;
             w = m_exchange S (Dscale S 1 (m_solve S (if m_type S = OS then Dscale S 1 r else r) 1)) 1;
             r0 = Schwarz_apply False S 0 mu True 0 st
         in b_work r0 = w \<and> b_out r0 = axpy (m_dof S) 1 w q)"
    if "m_co S \<and> length (b_in st) = m_dof S \<and> length (b_out st) = m_dof S \<and>
          length (b_work st) = m_dof S \<and> length (b_uc st) = m_local S \<and>
          (\<forall>v. length (m_solve S v 1) = length v) \<and>
          (\<forall>e v. length (m_callSolver S e v 0) = length v)"
    using that hx[of 1] by (intro deflated_work) blast+
qed

theorem GMV_scales_once_witness:
  "(\<forall>v. length (m_spmv S_ex v) = m_dof S_ex) \<and>
   (\<forall>m v. length (m_exchange S_ex v m) = length v) \<and>
   length (rd st_ex POut) = 1 * m_dof S_ex \<and>
   m_co S_ex \<and> length (b_in st_ex) = m_dof S_ex \<and> length (b_work st_ex) = m_dof S_ex \<and>
   length (b_uc st_ex) = m_local S_ex \<and>
   (\<forall>v. length (m_solve S_ex v 1) = length v) \<and>
   (\<forall>e v. length (m_callSolver S_ex e v 0) = length v) \<and>
   rd (GMV S_ex PIn POut 1 st_ex) POut = [48, 192] \<and>
   error_tmp S_ex [1, 1] 1 st_ex = [47, 191] \<and>
   b_work (Schwarz_apply False S_ex 0 1 True 0 st_ex) = [- (117 / 4), - 234]"
proof -
  have h: "\<forall>v. length (m_spmv S_ex v) = m_dof S_ex"
    "\<forall>m v. length (m_exchange S_ex v m) = length v"
    by (simp_all add: S_ex_def)
  show ?thesis
    using h GMV_scales_once[OF h, of st_ex POut 1 PIn "[1, 1]"]
    by (simp add: Let_def S_ex_def st_ex_def Dscale_def Zt_def Zmul_def Amul_def dot_def axpy_def
        csrmv_def eval_nat_numeral)
qed


text \<open>
  Claim C6 as stated fails: \<open>GMV\<close> does not compute what a primitive that scales before
  and after the product computes.
\<close>

theorem GMV_counterexample: "b_out (GMV S_ex PIn POut 1 st_ex) \<noteq> GMV_spec S_ex 1 (b_in st_ex)"
  by (simp add: run_defs GMV_spec_def cong: let_weak_cong)




section \<open>The balanced strategy\<close>







section \<open>computeError\<close>












section \<open>multiplicityScaling on one process\<close>








lemma length_scale_neighbor [simp]: "length (scale_neighbor eps idx send recv d) = length d"
proof -
  have "length (fold (\<lambda>j d. d[idx ! j := scale_update eps (send ! j) (recv ! j) (d ! (idx ! j))]) js d) = length d" for js
    by (induction js arbitrary: d) simp_all
  then show ?thesis by (simp add: scale_neighbor_def)
qed

lemma length_multiplicityScaling' [simp]:
  "length (multiplicityScaling eps dof mp rbuff order d) = dof + (length d - dof)"
proof -
  have "length (fold (\<lambda>index d. scale_neighbor eps (snd (mp ! index)) (sb ! index) (rbuff ! index) d) order d1) = length d1"
    for sb d1
    by (induction order arbitrary: d1) simp_all
  then show ?thesis by (simp add: multiplicityScaling_def Let_def)
qed













section \<open>multiplicityScaling on all the subdomains\<close>


































end
